theory Spec2Isabelle
  imports Main "HOL-Library.Multiset"
begin

section \<open>Shared data\<close>

text \<open>
  The npm-style location \<^verbatim>\<open>{pkg, version, path}\<close> and the subset of
  \<^verbatim>\<open>package.json\<close> the workers read. JavaScript strings are lists of code units.
\<close>

record NpmFileLocation =
  pkg :: string
  version :: string
  path :: string

record PackageJson =
  dependencies :: "(string \<times> string) list option"
  main :: "string option"
  module :: "string option"
  types :: "string option"
  typings :: "string option"

text \<open>What \<^verbatim>\<open>JSON.parse\<close> returns for the body of a \<^verbatim>\<open>package.json\<close>:
  \<^verbatim>\<open>null\<close>, or a value with the members above (a number, string or array has none of
  them and reads like the empty object).\<close>

datatype ParsedJson = JsonNull | JsonObject PackageJson

text \<open>A thrown \<^verbatim>\<open>Error\<close>, with its message.\<close>

datatype error = Error string

fun message :: "error \<Rightarrow> string" where
  "message (Error m) = m"

text \<open>The response of the platform's \<^verbatim>\<open>fetch\<close>: status, final (redirected) URL,
  body text and the \<^verbatim>\<open>content-type\<close> header.\<close>

record Response =
  res_status :: nat
  res_url :: string
  res_text :: string
  res_contentType :: "string option"

record CdnFile =
  content :: string
  contentType :: string

record FetchResult =
  url :: string
  cdnFile :: CdnFile

datatype SpecifierKind = KindUrl | KindBare | KindRelative

record Position =
  line :: int
  character :: int

text \<open>One entry of the list returned by \<^verbatim>\<open>esModuleLexer.parse\<close>: the specifier
  text \<^verbatim>\<open>n\<close> (undefined for a non-literal dynamic import), its start and end offsets
  \<^verbatim>\<open>s\<close> and \<^verbatim>\<open>e\<close>, and \<^verbatim>\<open>d\<close>, which is \<^verbatim>\<open>-1\<close> unless the import is dynamic.\<close>

record ImportSpecifier =
  spec_n :: "string option"
  spec_s :: nat
  spec_e :: nat
  spec_d :: int

text \<open>
  What the classes take from outside the sources at hand: the helpers of
  \<^verbatim>\<open>util.js\<close> (imported by every file, not among the sources), and the external
  collaborators: the platform's \<^verbatim>\<open>fetch\<close> as a function of the URL,
  \<^verbatim>\<open>JSON.parse\<close> (\<open>None\<close> when it throws), \<^verbatim>\<open>esModuleLexer.parse\<close> and
  \<^verbatim>\<open>ts.preProcessFile\<close> (imported files and lib reference directives). The last
  field is the JavaScript object model: for a property name that every object inherits
  from \<^verbatim>\<open>Object.prototype\<close>, the text the inherited value has in a template literal;
  \<open>None\<close> for every other name. They are parameters of the model.
\<close>

record env =
  parseNpmStyleSpecifier :: "string \<Rightarrow> NpmFileLocation option"
  fileExtension :: "string \<Rightarrow> string"
  changeFileExtension :: "string \<Rightarrow> string \<Rightarrow> string"
  classifySpecifier :: "string \<Rightarrow> SpecifierKind"
  resolveUrlPath :: "string \<Rightarrow> string \<Rightarrow> string"
  relativeUrlPath :: "string \<Rightarrow> string \<Rightarrow> string"
  charToLineAndChar :: "string \<Rightarrow> nat \<Rightarrow> Position"
  net_fetch :: "string \<Rightarrow> error + Response"
  JSON_parse :: "string \<Rightarrow> ParsedJson option"
  esModuleLexer_parse :: "string \<Rightarrow> error + ImportSpecifier list"
  ts_preProcessFile :: "string \<Rightarrow> string list \<times> string list"
  inheritedProperty :: "string \<Rightarrow> string option"

section \<open>String helpers\<close>

definition startsWith :: "string \<Rightarrow> string \<Rightarrow> bool" where
  "startsWith s p = (take (length p) s = p)"

definition endsWith :: "string \<Rightarrow> string \<Rightarrow> bool" where
  "endsWith s p = (length p \<le> length s \<and> drop (length s - length p) s = p)"

fun splitOn :: "char \<Rightarrow> string \<Rightarrow> string list" where
  "splitOn c [] = [[]]"
| "splitOn c (x # xs) =
     (if x = c then [] # splitOn c xs
      else (case splitOn c xs of [] \<Rightarrow> [[x]] | w # ws \<Rightarrow> (x # w) # ws))"

definition digitChar :: "nat \<Rightarrow> char" where
  "digitChar d = (''0123456789'' ! d)"

text \<open>Decimal rendering of a number inside a template literal.\<close>

fun showNatFuel :: "nat \<Rightarrow> nat \<Rightarrow> string" where
  "showNatFuel 0 n = [digitChar (n mod 10)]"
| "showNatFuel (Suc k) n =
     (if n < 10 then [digitChar n] else showNatFuel k (n div 10) @ [digitChar (n mod 10)])"

definition showNat :: "nat \<Rightarrow> string" where
  "showNat n = showNatFuel n n"

section \<open>CachingCdn\<close>

subsection \<open>Module-level helpers\<close>

definition isDigit :: "char \<Rightarrow> bool" where
  "isDigit c = (c \<in> set ''0123456789'')"

definition isIdentChar :: "char \<Rightarrow> bool" where
  "isIdentChar c =
     (c \<in> set ''0123456789abcdefghijklmnopqrstuvwxyzABCDEFGHIJKLMNOPQRSTUVWXYZ-'')"

text \<open>\<^verbatim>\<open>0|[1-9]\d*\<close>\<close>

definition numericIdent :: "string \<Rightarrow> bool" where
  "numericIdent w =
     (case w of [] \<Rightarrow> False
      | c # cs \<Rightarrow> (c = CHR ''0'' \<and> cs = []) \<or> (c \<in> set ''123456789'' \<and> list_all isDigit cs))"

text \<open>\<^verbatim>\<open>0|[1-9]\d*|\d*[a-zA-Z-][0-9a-zA-Z-]*\<close>\<close>

definition prereleaseIdent :: "string \<Rightarrow> bool" where
  "prereleaseIdent w =
     (numericIdent w \<or> (w \<noteq> [] \<and> list_all isIdentChar w \<and> \<not> list_all isDigit w))"

text \<open>\<^verbatim>\<open>[0-9a-zA-Z-]+\<close>\<close>

definition buildIdent :: "string \<Rightarrow> bool" where
  "buildIdent w = (w \<noteq> [] \<and> list_all isIdentChar w)"

text \<open>
  The semver regular expression of \<^verbatim>\<open>isExactVersion\<close>, anchored at both ends:
  three numeric identifiers joined by dots, then optionally \<^verbatim>\<open>-\<close> and dot-separated
  pre-release identifiers, then optionally \<^verbatim>\<open>+\<close> and dot-separated build
  identifiers. Neither the core nor the pre-release can hold a \<^verbatim>\<open>+\<close>, and the core
  cannot hold a \<^verbatim>\<open>-\<close>, so the first \<^verbatim>\<open>+\<close> and the first \<^verbatim>\<open>-\<close> before it are the
  separators.
\<close>

definition isExactVersion :: "string \<Rightarrow> bool" where
  "isExactVersion v =
     (let corePre = takeWhile (\<lambda>c. c \<noteq> CHR ''+'') v;
          build = dropWhile (\<lambda>c. c \<noteq> CHR ''+'') v;
          core = takeWhile (\<lambda>c. c \<noteq> CHR ''-'') corePre;
          pre = dropWhile (\<lambda>c. c \<noteq> CHR ''-'') corePre
      in length (splitOn CHR ''.'' core) = 3
         \<and> list_all numericIdent (splitOn CHR ''.'' core)
         \<and> (pre = [] \<or> list_all prereleaseIdent (splitOn CHR ''.'' (tl pre)))
         \<and> (build = [] \<or> list_all buildIdent (splitOn CHR ''.'' (tl build))))"

definition pkgVersion :: "string \<Rightarrow> string \<Rightarrow> string" where
  "pkgVersion p v = p @ ''@'' @ (if v = [] then ''latest'' else v)"

definition trimLeadingSlash :: "string \<Rightarrow> string" where
  "trimLeadingSlash w = (if startsWith w ''/'' then drop 1 w else w)"

definition trimTrailingSlash :: "string \<Rightarrow> string" where
  "trimTrailingSlash w = (if endsWith w ''/'' then butlast w else w)"

definition pkgVersionPath :: "NpmFileLocation \<Rightarrow> string" where
  "pkgVersionPath loc =
     trimTrailingSlash (pkgVersion (pkg loc) (version loc) @ ''/'' @ trimLeadingSlash (path loc))"

subsection \<open>The class\<close>

text \<open>
  The fields of \<^verbatim>\<open>CachingCdn\<close>. \<open>requested\<close> is not a field of the class: it is the
  trace of the URLs handed to the platform's \<^verbatim>\<open>fetch\<close>, in order, kept to count
  network requests.
\<close>

record CachingCdn =
  urlPrefix :: string
  versionCache :: "string \<rightharpoonup> string"
  fileCache :: "string \<rightharpoonup> FetchResult"
  requested :: "string list"

definition newCachingCdn :: "string \<Rightarrow> CachingCdn" where
  "newCachingCdn prefix =
     \<lparr>urlPrefix = prefix, versionCache = Map.empty, fileCache = Map.empty, requested = []\<rparr>"

definition cdn_parseUnpkgUrl :: "env \<Rightarrow> CachingCdn \<Rightarrow> string \<Rightarrow> error + NpmFileLocation" where
  "cdn_parseUnpkgUrl E c u =
     (if startsWith u (urlPrefix c) then
        (case parseNpmStyleSpecifier E (drop (length (urlPrefix c)) u) of
           Some parsed \<Rightarrow> Inr parsed
         | None \<Rightarrow> Inl (Error (''Unexpected unpkg.com URL format: '' @ u)))
      else Inl (Error (''Unexpected unpkg.com URL format: '' @ u)))"

text \<open>
  The first lines of \<^verbatim>\<open>_fetch\<close> and of \<^verbatim>\<open>canonicalize\<close>: a version that is not
  exact is replaced by the version cache's entry, if there is one.
\<close>

definition resolveCached :: "CachingCdn \<Rightarrow> NpmFileLocation \<Rightarrow> NpmFileLocation \<times> bool" where
  "resolveCached c loc =
     (if isExactVersion (version loc) then (loc, True)
      else (case versionCache c (pkgVersion (pkg loc) (version loc)) of
              Some resolved \<Rightarrow> (loc\<lparr>version := resolved\<rparr>, True)
            | None \<Rightarrow> (loc, False)))"

text \<open>
  \<^verbatim>\<open>_fetch\<close> suspends once, at \<^verbatim>\<open>await fetch(url)\<close>. The part before it runs
  without interruption: it answers from the file cache, or hands the URL to the network and
  leaves a pending request behind (the location after version-cache lookup, whether its
  version is exact, and the cache key).
\<close>

record PendingFetch =
  pend_location :: NpmFileLocation
  pend_exact :: bool
  pend_pvp :: string

definition cdn_fetch_start ::
  "CachingCdn \<Rightarrow> NpmFileLocation \<Rightarrow> (FetchResult + PendingFetch) \<times> CachingCdn" where
  "cdn_fetch_start c loc0 =
     (let (loc, exact) = resolveCached c loc0;
          pvp = pkgVersionPath loc
      in case fileCache c pvp of
           Some cached \<Rightarrow> (Inl cached, c)
         | None \<Rightarrow>
             (Inr \<lparr>pend_location = loc, pend_exact = exact, pend_pvp = pvp\<rparr>,
              c\<lparr>requested := requested c @ [urlPrefix c @ pvp]\<rparr>))"

text \<open>The object \<^verbatim>\<open>result\<close> that \<^verbatim>\<open>_fetch\<close> builds from a response.\<close>

definition responseResult :: "Response \<Rightarrow> FetchResult" where
  "responseResult res =
     \<lparr>url = res_url res,
      cdnFile = \<lparr>content = res_text res,
                 contentType = (case res_contentType res of
                                  Some t \<Rightarrow> t | None \<Rightarrow> ''text/plain'')\<rparr>\<rparr>"

text \<open>The part of \<^verbatim>\<open>_fetch\<close> that runs once the response has arrived.\<close>

definition cdn_fetch_finish ::
  "env \<Rightarrow> PendingFetch \<Rightarrow> error + Response \<Rightarrow> CachingCdn \<Rightarrow> (error + FetchResult) \<times> CachingCdn" where
  "cdn_fetch_finish E p r c =
     (case r of
        Inl err \<Rightarrow> (Inl err, c)
      | Inr res \<Rightarrow>
          if res_status res \<noteq> 200 then
            (Inl (Error (''Unpkg '' @ showNat (res_status res) @ '' error: '' @ res_text res)), c)
          else if \<not> pend_exact p then
            (case cdn_parseUnpkgUrl E c (res_url res) of
               Inl err \<Rightarrow> (Inl err, c)
             | Inr canonical \<Rightarrow>
                 (Inr (responseResult res),
                  c\<lparr>versionCache := (versionCache c)
                       (pkgVersion (pkg (pend_location p)) (version (pend_location p))
                          \<mapsto> version canonical),
                    fileCache := (fileCache c)(pkgVersionPath canonical \<mapsto> responseResult res)\<rparr>))
          else
            (Inr (responseResult res),
             c\<lparr>fileCache := (fileCache c)(pend_pvp p \<mapsto> responseResult res)\<rparr>))"

text \<open>\<^verbatim>\<open>_fetch\<close> run without another task in between.\<close>

definition cdn_fetch_priv ::
  "env \<Rightarrow> NpmFileLocation \<Rightarrow> CachingCdn \<Rightarrow> (error + FetchResult) \<times> CachingCdn" where
  "cdn_fetch_priv E loc c =
     (case cdn_fetch_start c loc of
        (Inl cached, c') \<Rightarrow> (Inr cached, c')
      | (Inr p, c') \<Rightarrow> cdn_fetch_finish E p (net_fetch E (urlPrefix c' @ pend_pvp p)) c')"

definition cdn_fetch ::
  "env \<Rightarrow> NpmFileLocation \<Rightarrow> CachingCdn \<Rightarrow> (error + CdnFile) \<times> CachingCdn" where
  "cdn_fetch E loc c =
     (case cdn_fetch_priv E loc c of
        (Inl err, c') \<Rightarrow> (Inl err, c')
      | (Inr r, c') \<Rightarrow> (Inr (cdnFile r), c'))"

definition cdn_canonicalize ::
  "env \<Rightarrow> NpmFileLocation \<Rightarrow> CachingCdn \<Rightarrow> (error + NpmFileLocation) \<times> CachingCdn" where
  "cdn_canonicalize E loc0 c =
     (let (loc, exact) = resolveCached c loc0
      in if \<not> exact \<or> fileExtension E (path loc) = [] then
           (case cdn_fetch_priv E loc c of
              (Inl err, c') \<Rightarrow> (Inl err, c')
            | (Inr r, c') \<Rightarrow> (cdn_parseUnpkgUrl E c' (url r), c'))
         else (Inr loc, c))"

definition cdn_fetchPackageJson ::
  "env \<Rightarrow> string \<Rightarrow> string \<Rightarrow> CachingCdn \<Rightarrow> (error + ParsedJson) \<times> CachingCdn" where
  "cdn_fetchPackageJson E p v c =
     (case cdn_fetch_priv E \<lparr>pkg = p, version = v, path = ''package.json''\<rparr> c of
        (Inl err, c') \<Rightarrow> (Inl err, c')
      | (Inr r, c') \<Rightarrow>
          (case JSON_parse E (content (cdnFile r)) of
             Some pj \<Rightarrow> (Inr pj, c')
           | None \<Rightarrow>
               (Inl (Error (''JSON error from '' @ url r @ '': '' @ content (cdnFile r))), c')))"

subsection \<open>Calls in flight at the same time\<close>

text \<open>
  Several callers of \<^verbatim>\<open>_fetch\<close> on one \<^verbatim>\<open>CachingCdn\<close>. A caller, named by a number,
  either enters \<^verbatim>\<open>_fetch\<close> and runs up to its await, or receives its response and runs to
  the end. The events are run in the order given; \<open>inFlight\<close> holds the callers that wait
  for their response and \<open>returned\<close> what each finished caller got.
\<close>

datatype FetchEvent = Call nat NpmFileLocation | Respond nat

record Flights =
  flightsCdn :: CachingCdn
  inFlight :: "(nat \<times> PendingFetch) list"
  returned :: "(nat \<times> (error + FetchResult)) list"

fun fetchEvent :: "env \<Rightarrow> Flights \<Rightarrow> FetchEvent \<Rightarrow> Flights" where
  "fetchEvent E F (Call i loc) =
     (case cdn_fetch_start (flightsCdn F) loc of
        (Inl cached, c') \<Rightarrow> F\<lparr>flightsCdn := c', returned := returned F @ [(i, Inr cached)]\<rparr>
      | (Inr p, c') \<Rightarrow> F\<lparr>flightsCdn := c', inFlight := inFlight F @ [(i, p)]\<rparr>)"
| "fetchEvent E F (Respond i) =
     (case map_of (inFlight F) i of
        None \<Rightarrow> F
      | Some p \<Rightarrow>
          (case cdn_fetch_finish E p
                  (net_fetch E (urlPrefix (flightsCdn F) @ pend_pvp p)) (flightsCdn F) of
             (r, c') \<Rightarrow>
               F\<lparr>flightsCdn := c',
                 inFlight := filter (\<lambda>(j, q). j \<noteq> i) (inFlight F),
                 returned := returned F @ [(i, r)]\<rparr>))"

definition concurrentFetches :: "env \<Rightarrow> FetchEvent list \<Rightarrow> CachingCdn \<Rightarrow> Flights" where
  "concurrentFetches E evs c = foldl (fetchEvent E) \<lparr>flightsCdn = c, inFlight = [], returned = []\<rparr> evs"

section \<open>BareModuleTransformer\<close>

subsection \<open>Build outputs, producers and the transformer's state\<close>

text \<open>\<^verbatim>\<open>BuildOutput\<close>: a file (name, content, optional content type) or a diagnostic
  (file name, message, start and end of its range).\<close>

datatype BuildOutput =
  FileOutput string string "string option"
| DiagnosticOutput string string Position Position

text \<open>
  The three \<^verbatim>\<open>getPackageJson\<close> closures the class passes around:
  \<^item> \<^verbatim>\<open>() => packageJson.promise\<close> of \<^verbatim>\<open>_process\<close>, given by the value the deferred
    settles to (every caller awaits it, so none sees it unsettled);
  \<^item> \<^verbatim>\<open>async () => undefined\<close>;
  \<^item> the closure of \<^verbatim>\<open>_handleDependency\<close>, with its location and its variable
    \<^verbatim>\<open>packageJson\<close> (\<open>None\<close> is the initial \<^verbatim>\<open>null\<close>).
\<close>

datatype GetPackageJson =
  ProjectPackageJson "PackageJson option"
| NoPackageJson
| DependencyPackageJson NpmFileLocation "PackageJson option option"

text \<open>A producer registered with \<^verbatim>\<open>merged.add\<close>: a call of
  \<^verbatim>\<open>_transformBareModuleSpecifiers\<close> on a file (name, content, content type), or a call
  of \<^verbatim>\<open>_handleDependency\<close>.\<close>

datatype Task =
  TransformTask string string "string option" GetPackageJson
| DependencyTask NpmFileLocation

text \<open>
  The fields \<^verbatim>\<open>_cdn\<close> and \<^verbatim>\<open>_alreadyHandled\<close>, the producers registered with the
  \<^verbatim>\<open>MergedAsyncIterables\<close> and not yet run (\<open>merged\<close>), and what the merged stream
  has yielded so far (\<open>emitted\<close>). Four traces are kept beside them to count events:
  \<open>scheduled\<close> holds the key of every \<^verbatim>\<open>merged.add(this._handleDependency(...))\<close>
  (one per import edge), \<open>dependencyFetches\<close> the key of every \<^verbatim>\<open>this._cdn.fetch\<close> call
  of \<^verbatim>\<open>_handleDependency\<close>, \<open>dependencyFiles\<close> the key of every file it yields, and
  \<open>dependencyErrors\<close> the key of every fetch that threw (where the source calls
  \<^verbatim>\<open>console.error\<close> and returns).
\<close>

record BareModuleTransformer =
  cdn :: CachingCdn
  alreadyHandled :: "string set"
  merged :: "Task list"
  emitted :: "BuildOutput list"
  scheduled :: "string list"
  dependencyFetches :: "string list"
  dependencyFiles :: "string list"
  dependencyErrors :: "string list"

definition newBareModuleTransformer :: "CachingCdn \<Rightarrow> BareModuleTransformer" where
  "newBareModuleTransformer c =
     \<lparr>cdn = c, alreadyHandled = {}, merged = [], emitted = [], scheduled = [],
      dependencyFetches = [], dependencyFiles = [], dependencyErrors = []\<rparr>"

definition locationKey :: "NpmFileLocation \<Rightarrow> string" where
  "locationKey loc = pkg loc @ ''@'' @ version loc @ ''/'' @ path loc"

definition yield :: "BuildOutput \<Rightarrow> BareModuleTransformer \<Rightarrow> BareModuleTransformer" where
  "yield out T = T\<lparr>emitted := emitted T @ [out]\<rparr>"

text \<open>\<^verbatim>\<open>merged.add(this._handleDependency(location, merged))\<close>\<close>

definition addDependencyTask :: "NpmFileLocation \<Rightarrow> BareModuleTransformer \<Rightarrow> BareModuleTransformer" where
  "addDependencyTask loc T =
     T\<lparr>merged := merged T @ [DependencyTask loc],
       scheduled := scheduled T @ [locationKey loc]\<rparr>"

subsection \<open>Resolving one specifier\<close>

definition callGetPackageJson ::
  "env \<Rightarrow> GetPackageJson \<Rightarrow> CachingCdn \<Rightarrow> PackageJson option \<times> GetPackageJson \<times> CachingCdn" where
  "callGetPackageJson E gp c =
     (case gp of
        ProjectPackageJson pj \<Rightarrow> (pj, gp, c)
      | NoPackageJson \<Rightarrow> (None, gp, c)
      | DependencyPackageJson loc (Some pj) \<Rightarrow> (pj, gp, c)
      | DependencyPackageJson loc None \<Rightarrow>
          (case cdn_fetchPackageJson E (pkg loc) (version loc) c of
             (Inl err, c') \<Rightarrow> (None, DependencyPackageJson loc (Some None), c')
           | (Inr JsonNull, c') \<Rightarrow> (None, DependencyPackageJson loc None, c')
           | (Inr (JsonObject j), c') \<Rightarrow>
               (Some j, DependencyPackageJson loc (Some (Some j)), c')))"

text \<open>
  \<^verbatim>\<open>(await getPackageJson())?.dependencies?.[pkg] ?? 'latest'\<close>. The member access on
  the \<^verbatim>\<open>dependencies\<close> object finds its own entries and, for a name it does not have,
  what the object inherits: \<open>Inl\<close> is the text of such an inherited value, which is
  not a string and not nullish; \<open>Inr\<close> is the version.
\<close>

definition declaredVersion :: "env \<Rightarrow> PackageJson option \<Rightarrow> string \<Rightarrow> string + string" where
  "declaredVersion E pj p =
     (case pj of
        None \<Rightarrow> Inr ''latest''
      | Some j \<Rightarrow>
          (case dependencies j of
             None \<Rightarrow> Inr ''latest''
           | Some deps \<Rightarrow>
               (case map_of deps p of
                  Some v \<Rightarrow> Inr v
                | None \<Rightarrow>
                    (case inheritedProperty E p of
                       Some inherited \<Rightarrow> Inl inherited
                     | None \<Rightarrow> Inr ''latest''))))"

text \<open>\<^verbatim>\<open>packageJson.module ?? packageJson.main ?? 'index.js'\<close>\<close>

definition mainEntry :: "PackageJson \<Rightarrow> string" where
  "mainEntry j =
     (case module j of
        Some m \<Rightarrow> m
      | None \<Rightarrow> (case main j of Some m \<Rightarrow> m | None \<Rightarrow> ''index.js''))"

text \<open>
  \<^verbatim>\<open>_transformBareSpecifier\<close>, in the order of its statements: parse; fill in a missing
  version; fill in a missing path; canonicalize when the path has no extension or the
  version is not exact; register the dependency; return the URL relative to the referrer.
  Each stage that throws ends the call with the error. When the version taken from the
  dependencies is an inherited value, the next statement that runs calls
  \<^verbatim>\<open>isExactVersion\<close> on it before anything else (directly, or first thing in
  \<^verbatim>\<open>_fetch\<close> or \<^verbatim>\<open>canonicalize\<close>), and \<^verbatim>\<open>s.match\<close> of a value that is not a string
  throws a TypeError. When the fetched \<^verbatim>\<open>package.json\<close> is \<^verbatim>\<open>null\<close>,
  \<^verbatim>\<open>packageJson.module\<close> throws a TypeError.
\<close>

definition fillVersion ::
  "env \<Rightarrow> GetPackageJson \<Rightarrow> NpmFileLocation \<Rightarrow> CachingCdn
     \<Rightarrow> (error + NpmFileLocation) \<times> GetPackageJson \<times> CachingCdn" where
  "fillVersion E gp loc c =
     (if version loc = [] then
        (case callGetPackageJson E gp c of
           (pj, gp', c') \<Rightarrow>
             (case declaredVersion E pj (pkg loc) of
                Inr v \<Rightarrow> (Inr (loc\<lparr>version := v\<rparr>), gp', c')
              | Inl inherited \<Rightarrow> (Inl (Error ''s.match is not a function''), gp', c')))
      else (Inr loc, gp, c))"

definition fillPath ::
  "env \<Rightarrow> NpmFileLocation \<Rightarrow> CachingCdn \<Rightarrow> (error + NpmFileLocation) \<times> CachingCdn" where
  "fillPath E loc c =
     (if path loc = [] then
        (case cdn_fetchPackageJson E (pkg loc) (version loc) c of
           (Inl err, c') \<Rightarrow> (Inl err, c')
         | (Inr JsonNull, c') \<Rightarrow>
             (Inl (Error (''Cannot read properties of null (reading '' @ [CHR 0x27] @ ''module''
                            @ [CHR 0x27] @ '')'')), c')
         | (Inr (JsonObject j), c') \<Rightarrow> (Inr (loc\<lparr>path := mainEntry j\<rparr>), c'))
      else (Inr loc, c))"

definition canonicalizeIfNeeded ::
  "env \<Rightarrow> NpmFileLocation \<Rightarrow> CachingCdn \<Rightarrow> (error + NpmFileLocation) \<times> CachingCdn" where
  "canonicalizeIfNeeded E loc c =
     (if fileExtension E (path loc) = [] \<or> \<not> isExactVersion (version loc)
      then cdn_canonicalize E loc c
      else (Inr loc, c))"

definition bmt_transformBareSpecifier ::
  "env \<Rightarrow> string \<Rightarrow> string \<Rightarrow> GetPackageJson \<Rightarrow> BareModuleTransformer
     \<Rightarrow> (error + string) \<times> GetPackageJson \<times> BareModuleTransformer" where
  "bmt_transformBareSpecifier E specifier referrer gp T =
     (case parseNpmStyleSpecifier E specifier of
        None \<Rightarrow> (Inl (Error (''Invalid specifier: '' @ specifier)), gp, T)
      | Some loc0 \<Rightarrow>
          (case fillVersion E gp loc0 (cdn T) of
             (Inl err, gp1, c1) \<Rightarrow> (Inl err, gp1, T\<lparr>cdn := c1\<rparr>)
           | (Inr loc1, gp1, c1) \<Rightarrow>
               (case fillPath E loc1 c1 of
                  (Inl err, c2) \<Rightarrow> (Inl err, gp1, T\<lparr>cdn := c2\<rparr>)
                | (Inr loc2, c2) \<Rightarrow>
                    (case canonicalizeIfNeeded E loc2 c2 of
                       (Inl err, c3) \<Rightarrow> (Inl err, gp1, T\<lparr>cdn := c3\<rparr>)
                     | (Inr loc3, c3) \<Rightarrow>
                         (Inr (relativeUrlPath E referrer (''node_modules/'' @ locationKey loc3)),
                          gp1, addDependencyTask loc3 (T\<lparr>cdn := c3\<rparr>))))))"

definition bmt_transformSpecifier ::
  "env \<Rightarrow> string \<Rightarrow> string \<Rightarrow> GetPackageJson \<Rightarrow> BareModuleTransformer
     \<Rightarrow> (error + string) \<times> GetPackageJson \<times> BareModuleTransformer" where
  "bmt_transformSpecifier E specifier referrer gp T =
     (case classifySpecifier E specifier of
        KindUrl \<Rightarrow> (Inr specifier, gp, T)
      | KindBare \<Rightarrow> bmt_transformBareSpecifier E specifier referrer gp T
      | KindRelative \<Rightarrow>
          if \<not> startsWith referrer ''node_modules/'' then (Inr specifier, gp, T)
          else
            (let absolute = resolveUrlPath E referrer specifier;
                 bare = drop (length ''/node_modules/'') absolute
             in if fileExtension E specifier = [] then
                  (case bmt_transformBareSpecifier E bare referrer NoPackageJson T of
                     (r, _, T') \<Rightarrow> (r, gp, T'))
                else
                  (case parseNpmStyleSpecifier E bare of
                     None \<Rightarrow> (Inl (Error ''wtf''), gp, T)
                   | Some location \<Rightarrow> (Inr specifier, gp, addDependencyTask location T))))"

subsection \<open>Rewriting one file\<close>

text \<open>
  The first loop of \<^verbatim>\<open>_transformBareModuleSpecifiers\<close>, over the specifiers it is given
  in the order it visits them (the caller passes the lexer's list reversed, as the loop
  counts \<^verbatim>\<open>i\<close> down): entries without \<^verbatim>\<open>n\<close> are skipped, every other one starts
  \<^verbatim>\<open>_transformSpecifier\<close> and is pushed on \<^verbatim>\<open>transforms\<close> with its promise, given
  here by what the promise settles to.
\<close>

fun startTransforms ::
  "env \<Rightarrow> string \<Rightarrow> ImportSpecifier list \<Rightarrow> GetPackageJson \<Rightarrow> BareModuleTransformer
     \<Rightarrow> (ImportSpecifier \<times> (error + string)) list \<times> GetPackageJson \<times> BareModuleTransformer" where
  "startTransforms E referrer [] gp T = ([], gp, T)"
| "startTransforms E referrer (info # rest) gp T =
     (case spec_n info of
        None \<Rightarrow> startTransforms E referrer rest gp T
      | Some oldSpecifier \<Rightarrow>
          (case bmt_transformSpecifier E oldSpecifier referrer gp T of
             (r, gp1, T1) \<Rightarrow>
               (case startTransforms E referrer rest gp1 T1 of
                  (ts, gp2, T2) \<Rightarrow> ((info, r) # ts, gp2, T2))))"

definition resolveDiagnostic :: "env \<Rightarrow> string \<Rightarrow> string \<Rightarrow> ImportSpecifier \<Rightarrow> error \<Rightarrow> BuildOutput" where
  "resolveDiagnostic E fname js info err =
     DiagnosticOutput fname
       (''Could not resolve module \"''
          @ (case spec_n info of Some oldSpecifier \<Rightarrow> oldSpecifier | None \<Rightarrow> ''undefined'')
          @ ''\": '' @ message err)
       (charToLineAndChar E js (spec_s info))
       (charToLineAndChar E js (spec_e info))"

text \<open>
  The second loop, over the entries of \<^verbatim>\<open>transforms\<close> in the order it visits them (the
  caller passes \<^verbatim>\<open>transforms\<close> reversed, as this loop counts \<^verbatim>\<open>i\<close> down too). It
  carries the text \<^verbatim>\<open>js\<close> and returns the final text with the diagnostics yielded on the
  way. \<^verbatim>\<open>substring\<close> clamps its indices to the length, as \<open>take\<close> and \<open>drop\<close> do.
\<close>

fun applyTransforms ::
  "env \<Rightarrow> string \<Rightarrow> (ImportSpecifier \<times> (error + string)) list \<Rightarrow> string
     \<Rightarrow> string \<times> BuildOutput list" where
  "applyTransforms E fname [] js = (js, [])"
| "applyTransforms E fname ((info, Inl err) # rest) js =
     (case applyTransforms E fname rest js of
        (js', ds) \<Rightarrow> (js', resolveDiagnostic E fname js info err # ds))"
| "applyTransforms E fname ((info, Inr newSpecifier) # rest) js =
     (if Some newSpecifier = spec_n info then applyTransforms E fname rest js
      else
        (let isDynamic = (spec_d info \<noteq> - 1);
             replacement = (if isDynamic then [CHR 0x27] @ newSpecifier @ [CHR 0x27]
                            else newSpecifier)
         in applyTransforms E fname rest
              (take (spec_s info) js @ replacement @ drop (spec_e info) js)))"

text \<open>\<^verbatim>\<open>Number(digits)\<close> on a string of decimal digits.\<close>

definition digitValue :: "char \<Rightarrow> nat" where
  "digitValue c = length (takeWhile (\<lambda>d. d \<noteq> c) ''0123456789'')"

definition numberOfDigits :: "string \<Rightarrow> nat" where
  "numberOfDigits ds = foldl (\<lambda>a c. 10 * a + digitValue c) 0 ds"

text \<open>
  \<^verbatim>\<open>_makeDiagnostic\<close>: the message must end in \<^verbatim>\<open>@:<digits>:<digits>\<close>. Read from the
  end: the last run of digits, a colon, the run of digits before it, then \<^verbatim>\<open>@:\<close>.
\<close>

definition bmt_makeDiagnostic :: "error \<Rightarrow> string \<Rightarrow> BuildOutput option" where
  "bmt_makeDiagnostic err fname =
     (let r = rev (message err);
          d2 = takeWhile isDigit r;
          r1 = dropWhile isDigit r;
          d1 = takeWhile isDigit (drop 1 r1);
          r2 = dropWhile isDigit (drop 1 r1)
      in if d2 \<noteq> [] \<and> take 1 r1 = '':'' \<and> d1 \<noteq> [] \<and> take 2 r2 = '':@'' then
           (let ln = int (numberOfDigits (rev d1)) - 1;
                ch = int (numberOfDigits (rev d2)) - 1
            in Some (DiagnosticOutput fname (''es-module-lexer error: '' @ message err)
                      \<lparr>line = ln, character = ch\<rparr> \<lparr>line = ln, character = ch + 1\<rparr>))
         else None)"

definition bmt_transformBareModuleSpecifiers ::
  "env \<Rightarrow> string \<Rightarrow> string \<Rightarrow> string option \<Rightarrow> GetPackageJson \<Rightarrow> BareModuleTransformer
     \<Rightarrow> BareModuleTransformer" where
  "bmt_transformBareModuleSpecifiers E fname js ctype gp T =
     (case esModuleLexer_parse E js of
        Inl err \<Rightarrow>
          (case bmt_makeDiagnostic err fname of
             None \<Rightarrow> yield (FileOutput fname js ctype) T
           | Some diagnostic \<Rightarrow> yield diagnostic (yield (FileOutput fname js ctype) T))
      | Inr specifiers \<Rightarrow>
          (case startTransforms E fname (rev specifiers) gp T of
             (transforms, _, T1) \<Rightarrow>
               (case applyTransforms E fname (rev transforms) js of
                  (js', ds) \<Rightarrow>
                    yield (FileOutput fname js' ctype) (T1\<lparr>emitted := emitted T1 @ ds\<rparr>))))"

subsection \<open>Dependencies and the stream\<close>

definition bmt_handleDependency ::
  "env \<Rightarrow> NpmFileLocation \<Rightarrow> BareModuleTransformer \<Rightarrow> BareModuleTransformer" where
  "bmt_handleDependency E location T =
     (let key = locationKey location
      in if key \<in> alreadyHandled T then T
         else
           (let T1 = T\<lparr>alreadyHandled := insert key (alreadyHandled T),
                       dependencyFetches := dependencyFetches T @ [key]\<rparr>
            in case cdn_fetch E location (cdn T1) of
                 (Inl err, c') \<Rightarrow>
                   T1\<lparr>cdn := c', dependencyErrors := dependencyErrors T1 @ [key]\<rparr>
               | (Inr asset, c') \<Rightarrow>
                   bmt_transformBareModuleSpecifiers E (''node_modules/'' @ key)
                     (content asset) (Some (contentType asset))
                     (DependencyPackageJson location None)
                     (T1\<lparr>cdn := c', dependencyFiles := dependencyFiles T1 @ [key]\<rparr>)))"

definition runTask :: "env \<Rightarrow> Task \<Rightarrow> BareModuleTransformer \<Rightarrow> BareModuleTransformer" where
  "runTask E t T =
     (case t of
        TransformTask fname js ctype gp \<Rightarrow> bmt_transformBareModuleSpecifiers E fname js ctype gp T
      | DependencyTask location \<Rightarrow> bmt_handleDependency E location T)"

text \<open>
  The loop of \<^verbatim>\<open>_process\<close> over the build results, carrying the deferred
  \<^verbatim>\<open>packageJson\<close> (\<open>None\<close> while unresolved; a second \<^verbatim>\<open>resolve\<close> of a settled
  promise changes nothing; resolved with \<^verbatim>\<open>null\<close> it reads like \<^verbatim>\<open>undefined\<close> under
  \<^verbatim>\<open>?.\<close>). It returns what the loop yields itself, the \<^verbatim>\<open>.js\<close> files
  it hands to \<^verbatim>\<open>_transformBareModuleSpecifiers\<close>, and the deferred at the end of the loop.
\<close>

fun processResults ::
  "env \<Rightarrow> BuildOutput list \<Rightarrow> PackageJson option option
     \<Rightarrow> BuildOutput list \<times> (string \<times> string \<times> string option) list \<times> PackageJson option option" where
  "processResults E [] d = ([], [], d)"
| "processResults E (FileOutput fname js ctype # rest) d =
     (if endsWith fname ''.js'' then
        (case processResults E rest d of
           (ys, fs, d') \<Rightarrow> (ys, (fname, js, ctype) # fs, d'))
      else
        (let d1 = (if fname = ''package.json'' then
                     (case JSON_parse E js of
                        Some (JsonObject j) \<Rightarrow> (case d of None \<Rightarrow> Some (Some j) | Some v \<Rightarrow> d)
                      | Some JsonNull \<Rightarrow> (case d of None \<Rightarrow> Some None | Some v \<Rightarrow> d)
                      | None \<Rightarrow> d)
                   else d)
         in case processResults E rest d1 of
              (ys, fs, d') \<Rightarrow> (FileOutput fname js ctype # ys, fs, d')))"
| "processResults E (DiagnosticOutput fname msg st en # rest) d =
     (case processResults E rest d of
        (ys, fs, d') \<Rightarrow> (DiagnosticOutput fname msg st en # ys, fs, d'))"

text \<open>The value the deferred settles to: \<^verbatim>\<open>undefined\<close> when the loop never resolved it.\<close>

definition settled :: "PackageJson option option \<Rightarrow> PackageJson option" where
  "settled d = (case d of None \<Rightarrow> None | Some v \<Rightarrow> v)"

definition bmt_process_priv ::
  "env \<Rightarrow> BuildOutput list \<Rightarrow> BareModuleTransformer \<Rightarrow> BareModuleTransformer" where
  "bmt_process_priv E results T =
     (case processResults E results None of
        (ys, fs, d) \<Rightarrow>
          T\<lparr>emitted := emitted T @ ys,
            merged := merged T
              @ map (\<lambda>(fname, js, ctype).
                       TransformTask fname js ctype (ProjectPackageJson (settled d))) fs\<rparr>)"

text \<open>
  The merged stream. Between two awaits a task runs alone, and the handled-set test and
  insert of \<^verbatim>\<open>_handleDependency\<close> have no await between them; here every registered
  producer runs to its end in one piece, and the order among the registered producers is
  left open: each number of the schedule picks one of the producers still waiting. The
  stream has ended when none is left.
\<close>

fun bmt_run :: "env \<Rightarrow> nat list \<Rightarrow> BareModuleTransformer \<Rightarrow> BareModuleTransformer" where
  "bmt_run E [] T = T"
| "bmt_run E (i # sched) T =
     (if merged T = [] then T
      else
        (let k = i mod length (merged T)
         in bmt_run E sched
              (runTask E (merged T ! k) (T\<lparr>merged := take k (merged T) @ drop (Suc k) (merged T)\<rparr>))))"

definition bmt_process ::
  "env \<Rightarrow> nat list \<Rightarrow> BuildOutput list \<Rightarrow> BareModuleTransformer \<Rightarrow> BareModuleTransformer" where
  "bmt_process E sched results T = bmt_run E sched (bmt_process_priv E results T)"

section \<open>The helpers of util.js and a table-driven environment\<close>

text \<open>
  The general theorems below hold for every environment. The functions of this section
  give one concrete environment, on which the model is run at concrete inputs.
\<close>

fun joinWith :: "string \<Rightarrow> string list \<Rightarrow> string" where
  "joinWith sep [] = []"
| "joinWith sep [w] = w"
| "joinWith sep (w # ws) = w @ sep @ joinWith sep ws"

definition isSchemeChar :: "char \<Rightarrow> bool" where
  "isSchemeChar c =
     (c \<in> set ''abcdefghijklmnopqrstuvwxyzABCDEFGHIJKLMNOPQRSTUVWXYZ0123456789+.-'')"

text \<open>Modelled from the spec: \<^verbatim>\<open>classifySpecifier\<close> of util.js is not among the sources.
  Section 4.1: a specifier is a URL if it contains a scheme (\<^verbatim>\<open>protocol:\<close>), relative if
  it starts with \<^verbatim>\<open>./\<close> or \<^verbatim>\<open>../\<close>, and bare otherwise.\<close>

definition classifySpecifier_spec :: "string \<Rightarrow> SpecifierKind" where
  "classifySpecifier_spec w =
     (let scheme = takeWhile (\<lambda>c. c \<noteq> CHR '':'') w
      in if CHR '':'' \<in> set w \<and> scheme \<noteq> [] \<and> list_all isSchemeChar scheme then KindUrl
         else if startsWith w ''./'' \<or> startsWith w ''../'' then KindRelative
         else KindBare)"

text \<open>Modelled from the spec: \<^verbatim>\<open>parseNpmStyleSpecifier\<close> of util.js is not among the
  sources. Section 4.1: it accepts \<^verbatim>\<open>[@scope/]name[@version][/path]\<close>, a scoped name taking
  exactly one more \<^verbatim>\<open>/\<close>-segment before a possible version, and returns undefined on
  malformed input.\<close>

definition parseUnscoped :: "string \<Rightarrow> string \<Rightarrow> NpmFileLocation option" where
  "parseUnscoped scope w =
     (let nameVersion = takeWhile (\<lambda>c. c \<noteq> CHR ''/'') w;
          rest = drop 1 (dropWhile (\<lambda>c. c \<noteq> CHR ''/'') w);
          nm = takeWhile (\<lambda>c. c \<noteq> CHR ''@'') nameVersion;
          ver = drop 1 (dropWhile (\<lambda>c. c \<noteq> CHR ''@'') nameVersion)
      in if nm = [] then None
         else Some \<lparr>pkg = scope @ nm, version = ver, path = rest\<rparr>)"

definition parseNpmStyleSpecifier_spec :: "string \<Rightarrow> NpmFileLocation option" where
  "parseNpmStyleSpecifier_spec w =
     (if startsWith w ''@'' then
        (let scope = takeWhile (\<lambda>c. c \<noteq> CHR ''/'') w;
             rest = dropWhile (\<lambda>c. c \<noteq> CHR ''/'') w
         in if length scope < 2 \<or> rest = [] then None
            else parseUnscoped (scope @ ''/'') (drop 1 rest))
      else parseUnscoped [] w)"

text \<open>Modelled from the spec: \<^verbatim>\<open>fileExtension\<close> and \<^verbatim>\<open>changeFileExtension\<close> of util.js
  are not among the sources. Section 4.1 names them as pure path-string utilities: the
  extension is what follows the last dot of the last path segment, empty when there is
  none; changing it replaces that part, or appends a dot and the new extension.\<close>

definition fileExtension_spec :: "string \<Rightarrow> string" where
  "fileExtension_spec p =
     (let base = rev (takeWhile (\<lambda>c. c \<noteq> CHR ''/'') (rev p))
      in if CHR ''.'' \<in> set base then rev (takeWhile (\<lambda>c. c \<noteq> CHR ''.'') (rev base)) else [])"

definition changeFileExtension_spec :: "string \<Rightarrow> string \<Rightarrow> string" where
  "changeFileExtension_spec p newExt =
     (let oldExt = fileExtension_spec p
      in if oldExt = [] then p @ ''.'' @ newExt
         else take (length p - length oldExt) p @ newExt)"

text \<open>Modelled from the spec: \<^verbatim>\<open>resolveUrlPath\<close> of util.js is not among the sources.
  Section 4.1 (\<^verbatim>\<open>resolveRelativeUrl\<close>): the specifier is resolved against the directory
  of the referrer, \<^verbatim>\<open>.\<close> and \<^verbatim>\<open>..\<close> segments are applied, and the result is an
  absolute path with a leading slash.\<close>

fun applySegments :: "string list \<Rightarrow> string list \<Rightarrow> string list" where
  "applySegments dir [] = dir"
| "applySegments dir (seg # segs) =
     (if seg = ''.'' \<or> seg = [] then applySegments dir segs
      else if seg = ''..'' then applySegments (butlast dir) segs
      else applySegments (dir @ [seg]) segs)"

definition resolveUrlPath_spec :: "string \<Rightarrow> string \<Rightarrow> string" where
  "resolveUrlPath_spec referrer specifier =
     ''/'' @ joinWith ''/''
        (applySegments (butlast (filter (\<lambda>w. w \<noteq> []) (splitOn CHR ''/'' referrer)))
           (splitOn CHR ''/'' specifier))"

text \<open>Modelled from the spec: \<^verbatim>\<open>relativeUrlPath\<close> of util.js is not among the sources.
  Section 4.1 (\<^verbatim>\<open>relativeUrlBetween\<close>) and section 6: the common leading segments of
  the two paths are dropped, one \<^verbatim>\<open>../\<close> is written for every directory left in the
  source path (\<^verbatim>\<open>./\<close> when there is none), then the rest of the target.\<close>

fun dropCommon :: "string list \<Rightarrow> string list \<Rightarrow> string list \<times> string list" where
  "dropCommon (a # as) (b # bs) = (if a = b then dropCommon as bs else (a # as, b # bs))"
| "dropCommon as bs = (as, bs)"

definition relativeUrlPath_spec :: "string \<Rightarrow> string \<Rightarrow> string" where
  "relativeUrlPath_spec src tgt =
     (case dropCommon (splitOn CHR ''/'' src) (splitOn CHR ''/'' tgt) of
        (srcRest, tgtRest) \<Rightarrow>
          (if length srcRest \<le> 1 then ''./'' else concat (replicate (length srcRest - 1) ''../''))
          @ joinWith ''/'' tgtRest)"

text \<open>Modelled from the spec: \<^verbatim>\<open>charToLineAndChar\<close> of util.js is not among the sources.
  Section 4.4 positions a diagnostic at a line and column: the line is the number of
  newlines before the offset, the column the number of characters since the last of them.\<close>

fun countLineAndChar :: "string \<Rightarrow> Position \<Rightarrow> Position" where
  "countLineAndChar [] p = p"
| "countLineAndChar (c # cs) p =
     (if c = CHR 0x0A then countLineAndChar cs \<lparr>line = line p + 1, character = 0\<rparr>
      else countLineAndChar cs (p\<lparr>character := character p + 1\<rparr>))"

definition charToLineAndChar_spec :: "string \<Rightarrow> nat \<Rightarrow> Position" where
  "charToLineAndChar_spec js k = countLineAndChar (take k js) \<lparr>line = 0, character = 0\<rparr>"

text \<open>
  A lexer for the static imports of the examples, \<^verbatim>\<open>import "..."\<close>: every occurrence is
  reported with the offsets of the text between the quotes, in source order, as
  \<^verbatim>\<open>esModuleLexer.parse\<close> reports a static import.
\<close>

fun scanImports :: "nat \<Rightarrow> string \<Rightarrow> ImportSpecifier list" where
  "scanImports k [] = []"
| "scanImports k (c # cs) =
     (if startsWith (c # cs) ''import \"'' then
        (let n = takeWhile (\<lambda>x. x \<noteq> CHR 0x22) (drop 8 (c # cs))
         in \<lparr>spec_n = Some n, spec_s = k + 8, spec_e = k + 8 + length n, spec_d = - 1\<rparr>
              # scanImports (Suc k) cs)
      else scanImports (Suc k) cs)"

text \<open>A network given by a table from request URL to response; any other URL is a 404
  with the body \<^verbatim>\<open>Not Found\<close>.\<close>

definition tableFetch :: "(string \<times> Response) list \<Rightarrow> string \<Rightarrow> error + Response" where
  "tableFetch web u =
     (case map_of web u of
        Some r \<Rightarrow> Inr r
      | None \<Rightarrow> Inr \<lparr>res_status = 404, res_url = u, res_text = ''Not Found'',
                     res_contentType = None\<rparr>)"

definition served :: "string \<Rightarrow> string \<Rightarrow> Response" where
  "served finalUrl body =
     \<lparr>res_status = 200, res_url = finalUrl, res_text = body,
      res_contentType = Some ''text/javascript; charset=utf-8''\<rparr>"

text \<open>The members that a plain object inherits from \<^verbatim>\<open>Object.prototype\<close>, each with
  a text for its value (a function, or the prototype object itself).\<close>

definition inheritedProperty_std :: "string \<Rightarrow> string option" where
  "inheritedProperty_std nm =
     (if nm = ''__proto__'' then Some ''[object Object]''
      else if nm \<in> set [''constructor'', ''hasOwnProperty'', ''isPrototypeOf'',
                         ''propertyIsEnumerable'', ''toLocaleString'', ''toString'', ''valueOf'',
                         ''__defineGetter__'', ''__defineSetter__'', ''__lookupGetter__'',
                         ''__lookupSetter__'']
      then Some (''function '' @ nm @ ''() { [native code] }'')
      else None)"

text \<open>The environment of the examples: the network table, the table of the texts that
  \<^verbatim>\<open>JSON.parse\<close> accepts with the objects they denote (beside them it accepts the text
  \<^verbatim>\<open>null\<close>), and the table of what \<^verbatim>\<open>ts.preProcessFile\<close> finds in a source text.\<close>

definition tableEnv ::
  "(string \<times> Response) list \<Rightarrow> (string \<times> PackageJson) list
     \<Rightarrow> (string \<times> string list \<times> string list) list \<Rightarrow> env" where
  "tableEnv web manifests sources =
     \<lparr>parseNpmStyleSpecifier = parseNpmStyleSpecifier_spec,
      fileExtension = fileExtension_spec,
      changeFileExtension = changeFileExtension_spec,
      classifySpecifier = classifySpecifier_spec,
      resolveUrlPath = resolveUrlPath_spec,
      relativeUrlPath = relativeUrlPath_spec,
      charToLineAndChar = charToLineAndChar_spec,
      net_fetch = tableFetch web,
      JSON_parse = (\<lambda>txt. if txt = ''null'' then Some JsonNull
                          else map_option JsonObject (map_of manifests txt)),
      esModuleLexer_parse = (\<lambda>js. Inr (scanImports 0 js)),
      ts_preProcessFile = (\<lambda>src. case map_of sources src of Some r \<Rightarrow> r | None \<Rightarrow> ([], [])),
      inheritedProperty = inheritedProperty_std\<rparr>"

definition emptyPackageJson :: PackageJson where
  "emptyPackageJson =
     \<lparr>dependencies = None, main = None, module = None, types = None, typings = None\<rparr>"

section \<open>Bookkeeping for the crawl and example inputs\<close>

text \<open>The names of the files in a list of outputs, and the names of the files that the
  \<^verbatim>\<open>_transformBareModuleSpecifiers\<close> producers of a list will yield.\<close>

fun fileNames :: "BuildOutput list \<Rightarrow> string list" where
  "fileNames [] = []"
| "fileNames (FileOutput fname js ctype # outs) = fname # fileNames outs"
| "fileNames (DiagnosticOutput fname msg st en # outs) = fileNames outs"

fun taskFileNames :: "Task list \<Rightarrow> string list" where
  "taskFileNames [] = []"
| "taskFileNames (TransformTask fname js ctype gp # ts) = fname # taskFileNames ts"
| "taskFileNames (DependencyTask loc # ts) = taskFileNames ts"

text \<open>The keys of the \<^verbatim>\<open>_handleDependency\<close> producers among a list of producers.\<close>

fun depKeys :: "Task list \<Rightarrow> string list" where
  "depKeys [] = []"
| "depKeys (TransformTask fname js ctype gp # ts) = depKeys ts"
| "depKeys (DependencyTask loc # ts) = locationKey loc # depKeys ts"

text \<open>
  \<open>sameHandling T T'\<close>: from \<open>T\<close> to \<open>T'\<close> the handled-set and the fetch, file and
  error traces are unchanged, and the only new producers are \<^verbatim>\<open>_handleDependency\<close> calls,
  whose keys were appended to \<open>scheduled\<close>. \<open>schedules\<close>: moreover nothing was yielded.
  \<open>emitsFile fname\<close>: what was yielded holds exactly one file, named \<open>fname\<close>.
\<close>

definition sameHandling :: "BareModuleTransformer \<Rightarrow> BareModuleTransformer \<Rightarrow> bool" where
  "sameHandling T T' \<longleftrightarrow>
     alreadyHandled T' = alreadyHandled T \<and> dependencyFetches T' = dependencyFetches T
     \<and> dependencyFiles T' = dependencyFiles T \<and> dependencyErrors T' = dependencyErrors T
     \<and> (\<exists>locs. merged T' = merged T @ map DependencyTask locs
                \<and> scheduled T' = scheduled T @ map locationKey locs)"

definition schedules :: "BareModuleTransformer \<Rightarrow> BareModuleTransformer \<Rightarrow> bool" where
  "schedules T T' \<longleftrightarrow> sameHandling T T' \<and> emitted T' = emitted T"





text \<open>The networks of the examples, under the prefix \<^verbatim>\<open>cdn/\<close>.\<close>

definition webAB :: "(string \<times> Response) list" where
  "webAB = [(''cdn/foo@latest/a.js'', served ''cdn/foo@1.0.0/a.js'' ''a1''),
            (''cdn/foo@latest/b.js'', served ''cdn/foo@1.0.0/b.js'' ''b1''),
            (''cdn/foo@1.0.0/a.js'', served ''cdn/foo@1.0.0/a.js'' ''a1''),
            (''cdn/foo@1.0.0/b.js'', served ''cdn/foo@1.0.0/b.js'' ''b1'')]"






text \<open>The build results that \<^verbatim>\<open>_process\<close> yields itself are those that are not
  \<^verbatim>\<open>.js\<close> files; the \<^verbatim>\<open>.js\<close> files are handed to \<^verbatim>\<open>_transformBareModuleSpecifiers\<close>.\<close>

definition isJsFile :: "BuildOutput \<Rightarrow> bool" where
  "isJsFile r = (case r of FileOutput fname js ctype \<Rightarrow> endsWith fname ''.js''
                 | DiagnosticOutput fname msg st en \<Rightarrow> False)"

fun jsFiles :: "BuildOutput list \<Rightarrow> (string \<times> string \<times> string option) list" where
  "jsFiles [] = []"
| "jsFiles (FileOutput fname js ctype # rest) =
     (if endsWith fname ''.js'' then (fname, js, ctype) # jsFiles rest else jsFiles rest)"
| "jsFiles (DiagnosticOutput fname msg st en # rest) = jsFiles rest"

text \<open>
  A CDN with \<^verbatim>\<open>foo\<close> at 1.0.0 and 2.0.0 (latest) and \<^verbatim>\<open>constructor\<close> at 1.0.0, each with
  the \<^verbatim>\<open>package.json\<close> \<^verbatim>\<open>{}\<close> and an \<^verbatim>\<open>index.js\<close>; the project manifest that declares
  \<^verbatim>\<open>foo: "^1.0.0"\<close>; a run of \<^verbatim>\<open>process\<close> over given build results on that CDN; and a
  project whose \<^verbatim>\<open>package.json\<close> is not JSON.
\<close>

definition webFoo :: "(string \<times> Response) list" where
  "webFoo = [(''cdn/foo@^1.0.0/package.json'', served ''cdn/foo@1.0.0/package.json'' ''{}''),
             (''cdn/foo@1.0.0/index.js'', served ''cdn/foo@1.0.0/index.js'' ''foo1''),
             (''cdn/foo@latest/package.json'', served ''cdn/foo@2.0.0/package.json'' ''{}''),
             (''cdn/foo@2.0.0/index.js'', served ''cdn/foo@2.0.0/index.js'' ''foo2''),
             (''cdn/constructor@latest/package.json'', served ''cdn/constructor@1.0.0/package.json'' ''{}''),
             (''cdn/constructor@1.0.0/index.js'', served ''cdn/constructor@1.0.0/index.js'' ''ctor'')]"

definition fooManifest :: PackageJson where
  "fooManifest = emptyPackageJson\<lparr>dependencies := Some [(''foo'', ''^1.0.0'')]\<rparr>"

definition manifestsFoo :: "(string \<times> PackageJson) list" where
  "manifestsFoo = [(''{}'', emptyPackageJson),
                   (''{\"dependencies\":{\"foo\":\"^1.0.0\"}}'', fooManifest)]"

definition fooProject :: "BuildOutput list \<Rightarrow> BareModuleTransformer" where
  "fooProject results = bmt_process (tableEnv webFoo manifestsFoo []) [0, 0] results
                          (newBareModuleTransformer (newCachingCdn ''cdn/''))"

definition invalidManifestProject :: "BuildOutput list" where
  "invalidManifestProject = [FileOutput ''package.json'' ''not json'' None,
                             FileOutput ''index.js'' ''import \"foo\";'' None]"

section \<open>Properties of CachingCdn\<close>

text \<open>Facts for running the model on concrete inputs.\<close>

lemma isExactVersion_examples:
  "isExactVersion ''1.0.0''" "isExactVersion ''2.0.0''"
  "\<not> isExactVersion ''^1.0.0''" "\<not> isExactVersion ''latest''" "\<not> isExactVersion []"
  by code_simp+

lemma showNat_404: "showNat 404 = ''404''"
  by code_simp

lemmas cdn_defs =
  cdn_fetch_def cdn_fetch_priv_def cdn_fetch_start_def cdn_fetch_finish_def resolveCached_def
  cdn_canonicalize_def cdn_fetchPackageJson_def cdn_parseUnpkgUrl_def responseResult_def
  pkgVersionPath_def pkgVersion_def trimTrailingSlash_def trimLeadingSlash_def
  startsWith_def endsWith_def newCachingCdn_def Let_def

lemmas env_defs =
  tableEnv_def tableFetch_def served_def parseNpmStyleSpecifier_spec_def parseUnscoped_def
  fileExtension_spec_def classifySpecifier_spec_def isSchemeChar_def inheritedProperty_std_def

lemmas util_defs =
  resolveUrlPath_spec_def relativeUrlPath_spec_def charToLineAndChar_spec_def
  changeFileExtension_spec_def

lemmas bmt_defs =
  bmt_process_def bmt_process_priv_def runTask_def bmt_handleDependency_def
  bmt_transformBareModuleSpecifiers_def bmt_transformSpecifier_def bmt_transformBareSpecifier_def
  fillVersion_def fillPath_def canonicalizeIfNeeded_def callGetPackageJson_def declaredVersion_def
  mainEntry_def resolveDiagnostic_def yield_def addDependencyTask_def locationKey_def settled_def
  newBareModuleTransformer_def

text \<open>How \<^verbatim>\<open>_fetch\<close> reads and writes the caches.\<close>

lemma parseUnpkgUrl_prefix:
  "urlPrefix c1 = urlPrefix c \<Longrightarrow> cdn_parseUnpkgUrl E c1 u = cdn_parseUnpkgUrl E c u"
  by (simp add: cdn_parseUnpkgUrl_def)

lemma resolveCached_same_versions:
  "versionCache c1 = versionCache c \<Longrightarrow> resolveCached c1 loc = resolveCached c loc"
  by (simp add: resolveCached_def)

lemma fetch_hit:
  assumes "resolveCached c loc = (loc1, ex)" and "fileCache c (pkgVersionPath loc1) = Some r"
  shows "cdn_fetch_priv E loc c = (Inr r, c)"
  using assms by (simp add: cdn_fetch_priv_def cdn_fetch_start_def)

lemma fetch_miss:
  assumes "resolveCached c loc = (loc1, ex)" and "fileCache c (pkgVersionPath loc1) = None"
  shows "cdn_fetch_priv E loc c =
           cdn_fetch_finish E \<lparr>pend_location = loc1, pend_exact = ex, pend_pvp = pkgVersionPath loc1\<rparr>
             (net_fetch E (urlPrefix c @ pkgVersionPath loc1))
             (c\<lparr>requested := requested c @ [urlPrefix c @ pkgVersionPath loc1]\<rparr>)"
  using assms by (simp add: cdn_fetch_priv_def cdn_fetch_start_def Let_def)

lemma finish_exact:
  assumes "cdn_fetch_finish E p resp c = (Inr r, c')" and "pend_exact p"
  shows "c' = c\<lparr>fileCache := (fileCache c)(pend_pvp p \<mapsto> r)\<rparr>"
proof (cases resp)
  case (Inl err)
  with assms show ?thesis by (simp add: cdn_fetch_finish_def)
next
  case (Inr res)
  with assms show ?thesis
    by (cases "res_status res = 200") (auto simp: cdn_fetch_finish_def)
qed

lemma finish_inexact:
  assumes "cdn_fetch_finish E p resp c = (Inr r, c')" and "\<not> pend_exact p"
  shows "\<exists>canonical. cdn_parseUnpkgUrl E c (url r) = Inr canonical
           \<and> c' = c\<lparr>versionCache := (versionCache c)
                       (pkgVersion (pkg (pend_location p)) (version (pend_location p))
                          \<mapsto> version canonical),
                     fileCache := (fileCache c)(pkgVersionPath canonical \<mapsto> r)\<rparr>"
proof (cases resp)
  case (Inl err)
  with assms show ?thesis by (simp add: cdn_fetch_finish_def)
next
  case (Inr res)
  show ?thesis
  proof (cases "res_status res = 200")
    case False
    with assms Inr show ?thesis by (simp add: cdn_fetch_finish_def)
  next
    case True
    show ?thesis
    proof (cases "cdn_parseUnpkgUrl E c (res_url res)")
      case (Inl err)
      with assms Inr True show ?thesis by (simp add: cdn_fetch_finish_def)
    next
      case (Inr canonical)
      with assms \<open>resp = Inr res\<close> True have "r = responseResult res"
        and "c' = c\<lparr>versionCache := (versionCache c)
                       (pkgVersion (pkg (pend_location p)) (version (pend_location p))
                          \<mapsto> version canonical),
                     fileCache := (fileCache c)(pkgVersionPath canonical \<mapsto> r)\<rparr>"
        by (auto simp: cdn_fetch_finish_def)
      moreover from \<open>r = responseResult res\<close> have "url r = res_url res"
        by (simp add: responseResult_def)
      ultimately show ?thesis using Inr by simp
    qed
  qed
qed

text \<open>A caller that is answered before any other event is \<^verbatim>\<open>_fetch\<close> run in one piece.\<close>

lemma concurrentFetches_alone:
  "flightsCdn (concurrentFetches E [Call i loc, Respond i] c) = snd (cdn_fetch_priv E loc c)"
  by (simp add: concurrentFetches_def cdn_fetch_priv_def cdn_fetch_start_def Let_def
      split: prod.splits sum.splits option.splits)

text \<open>
  Claim C7. \<^verbatim>\<open>canonicalize\<close> on a location whose version is an exact semver version and
  whose path has a non-empty file extension returns the location itself and leaves the
  \<^verbatim>\<open>CachingCdn\<close> as it was: both caches are unchanged and no URL was handed to the
  network.
\<close>

theorem canonicalize_exact_with_extension_unchanged:
  assumes "isExactVersion (version loc)" and "fileExtension E (path loc) \<noteq> []"
  shows "cdn_canonicalize E loc c = (Inr loc, c)"
  using assms by (simp add: cdn_canonicalize_def resolveCached_def)

theorem canonicalize_exact_with_extension_unchanged_witness:
  "isExactVersion ''1.0.0'' \<and> fileExtension (tableEnv [] [] []) ''index.js'' \<noteq> []
   \<and> cdn_canonicalize (tableEnv [] [] [])
        \<lparr>pkg = ''foo'', version = ''1.0.0'', path = ''index.js''\<rparr> (newCachingCdn ''cdn/'')
      = (Inr \<lparr>pkg = ''foo'', version = ''1.0.0'', path = ''index.js''\<rparr>, newCachingCdn ''cdn/'')"
proof -
  have a: "isExactVersion (version \<lparr>pkg = ''foo'', version = ''1.0.0'', path = ''index.js''\<rparr>)"
    by (simp add: isExactVersion_examples)
  have b: "fileExtension (tableEnv [] [] [])
             (path \<lparr>pkg = ''foo'', version = ''1.0.0'', path = ''index.js''\<rparr>) \<noteq> []"
    by (simp add: tableEnv_def fileExtension_spec_def)
  from canonicalize_exact_with_extension_unchanged [OF a b] a b show ?thesis by simp
qed

text \<open>
  Claim C6, as stated, fails: \<^verbatim>\<open>_fetch\<close> writes its caches only after the response has
  arrived, so a second caller that enters while the first is in flight finds nothing in
  the file cache and hands the same URL to the network. Two callers ask for
  \<^verbatim>\<open>foo@1.0.0/index.js\<close>, and two for the unresolved \<^verbatim>\<open>foo@^1.0.0/index.js\<close>, the second
  entering before the first is answered: each pair makes two requests.
\<close>

theorem concurrent_fetch_requests_twice_counterexample:
  "requested (flightsCdn (concurrentFetches
      (tableEnv [(''cdn/foo@1.0.0/index.js'', served ''cdn/foo@1.0.0/index.js'' ''foo1'')] [] [])
      [Call 0 \<lparr>pkg = ''foo'', version = ''1.0.0'', path = ''index.js''\<rparr>,
       Call 1 \<lparr>pkg = ''foo'', version = ''1.0.0'', path = ''index.js''\<rparr>,
       Respond 0, Respond 1]
      (newCachingCdn ''cdn/'')))
    = [''cdn/foo@1.0.0/index.js'', ''cdn/foo@1.0.0/index.js'']
   \<and> requested (flightsCdn (concurrentFetches
      (tableEnv [(''cdn/foo@^1.0.0/index.js'', served ''cdn/foo@1.0.0/index.js'' ''foo1'')] [] [])
      [Call 0 \<lparr>pkg = ''foo'', version = ''^1.0.0'', path = ''index.js''\<rparr>,
       Call 1 \<lparr>pkg = ''foo'', version = ''^1.0.0'', path = ''index.js''\<rparr>,
       Respond 0, Respond 1]
      (newCachingCdn ''cdn/'')))
    = [''cdn/foo@^1.0.0/index.js'', ''cdn/foo@^1.0.0/index.js'']"
  by (simp add: concurrentFetches_def cdn_defs env_defs isExactVersion_examples)

text \<open>
  Claim C6, amended. What \<^verbatim>\<open>_fetch\<close> memoizes is the completed result: once a call
  for a location has returned a result, a later call for the same location returns that
  result, makes no request and changes no cache, provided the location's version is exact
  or was already in the version cache, or the final URL of the first response names the
  same package and path and differs from the request in the version only.
\<close>

theorem fetch_after_completed_fetch_is_cached:
  assumes first: "cdn_fetch_priv E loc c = (Inr r, c')"
    and known: "isExactVersion (version loc)
         \<or> versionCache c (pkgVersion (pkg loc) (version loc)) \<noteq> None
         \<or> (\<exists>v. cdn_parseUnpkgUrl E c (url r) = Inr (loc\<lparr>version := v\<rparr>))"
  shows "cdn_fetch_priv E loc c' = (Inr r, c')"
proof -
  obtain loc1 ex where rc: "resolveCached c loc = (loc1, ex)"
    by (cases "resolveCached c loc") auto
  show ?thesis
  proof (cases "fileCache c (pkgVersionPath loc1)")
    case (Some cached)
    with rc have "cdn_fetch_priv E loc c = (Inr cached, c)" by (rule fetch_hit)
    with first have "r = cached" "c' = c" by simp_all
    with rc Some show ?thesis by (simp add: fetch_hit)
  next
    case None
    define c1 where "c1 = c\<lparr>requested := requested c @ [urlPrefix c @ pkgVersionPath loc1]\<rparr>"
    define p where "p = \<lparr>pend_location = loc1, pend_exact = ex, pend_pvp = pkgVersionPath loc1\<rparr>"
    have fin: "cdn_fetch_finish E p (net_fetch E (urlPrefix c @ pkgVersionPath loc1)) c1 = (Inr r, c')"
      using fetch_miss [OF rc None, of E] first by (simp add: c1_def p_def)
    show ?thesis
    proof (cases ex)
      case True
      then have "pend_exact p" by (simp add: p_def)
      from finish_exact [OF fin this]
      have c': "c' = c1\<lparr>fileCache := (fileCache c1)(pkgVersionPath loc1 \<mapsto> r)\<rparr>"
        by (simp add: p_def)
      have "resolveCached c' loc = resolveCached c loc"
        by (rule resolveCached_same_versions) (simp add: c' c1_def)
      with rc have "resolveCached c' loc = (loc1, ex)" by simp
      moreover have "fileCache c' (pkgVersionPath loc1) = Some r"
        by (simp add: c')
      ultimately show ?thesis by (rule fetch_hit)
    next
      case False
      have nex: "\<not> isExactVersion (version loc)"
        using rc False by (cases "isExactVersion (version loc)") (simp_all add: resolveCached_def)
      have nov: "versionCache c (pkgVersion (pkg loc) (version loc)) = None"
        using rc False nex
        by (cases "versionCache c (pkgVersion (pkg loc) (version loc))")
           (simp_all add: resolveCached_def)
      have l1: "loc1 = loc"
        using rc nex nov by (simp add: resolveCached_def)
      from False have "\<not> pend_exact p" by (simp add: p_def)
      from finish_inexact [OF fin this] obtain canonical where
        can: "cdn_parseUnpkgUrl E c1 (url r) = Inr canonical"
        and c': "c' = c1\<lparr>versionCache := (versionCache c1)
                           (pkgVersion (pkg loc) (version loc) \<mapsto> version canonical),
                         fileCache := (fileCache c1)(pkgVersionPath canonical \<mapsto> r)\<rparr>"
        by (auto simp: p_def l1)
      have "cdn_parseUnpkgUrl E c1 (url r) = cdn_parseUnpkgUrl E c (url r)"
        by (rule parseUnpkgUrl_prefix) (simp add: c1_def)
      with known nex nov can obtain v where cv: "canonical = loc\<lparr>version := v\<rparr>"
        by auto
      have "resolveCached c' loc = (loc\<lparr>version := v\<rparr>, True)"
        using nex by (simp add: resolveCached_def c' cv)
      moreover have "fileCache c' (pkgVersionPath (loc\<lparr>version := v\<rparr>)) = Some r"
        by (simp add: c' cv)
      ultimately show ?thesis by (rule fetch_hit)
    qed
  qed
qed

theorem fetch_after_completed_fetch_is_cached_witness:
  "fst (cdn_fetch_priv
          (tableEnv [(''cdn/foo@1.0.0/index.js'', served ''cdn/foo@1.0.0/index.js'' ''foo1'')] [] [])
          \<lparr>pkg = ''foo'', version = ''1.0.0'', path = ''index.js''\<rparr> (newCachingCdn ''cdn/''))
     = Inr \<lparr>url = ''cdn/foo@1.0.0/index.js'',
             cdnFile = \<lparr>content = ''foo1'', contentType = ''text/javascript; charset=utf-8''\<rparr>\<rparr>
   \<and> isExactVersion ''1.0.0''
   \<and> fst (cdn_fetch_priv
          (tableEnv [(''cdn/foo@1.0.0/index.js'', served ''cdn/foo@1.0.0/index.js'' ''foo1'')] [] [])
          \<lparr>pkg = ''foo'', version = ''1.0.0'', path = ''index.js''\<rparr>
          (snd (cdn_fetch_priv
             (tableEnv [(''cdn/foo@1.0.0/index.js'', served ''cdn/foo@1.0.0/index.js'' ''foo1'')] [] [])
             \<lparr>pkg = ''foo'', version = ''1.0.0'', path = ''index.js''\<rparr> (newCachingCdn ''cdn/''))))
     = Inr \<lparr>url = ''cdn/foo@1.0.0/index.js'',
             cdnFile = \<lparr>content = ''foo1'', contentType = ''text/javascript; charset=utf-8''\<rparr>\<rparr>
   \<and> requested (snd (cdn_fetch_priv
          (tableEnv [(''cdn/foo@1.0.0/index.js'', served ''cdn/foo@1.0.0/index.js'' ''foo1'')] [] [])
          \<lparr>pkg = ''foo'', version = ''1.0.0'', path = ''index.js''\<rparr>
          (snd (cdn_fetch_priv
             (tableEnv [(''cdn/foo@1.0.0/index.js'', served ''cdn/foo@1.0.0/index.js'' ''foo1'')] [] [])
             \<lparr>pkg = ''foo'', version = ''1.0.0'', path = ''index.js''\<rparr> (newCachingCdn ''cdn/'')))))
     = [''cdn/foo@1.0.0/index.js'']"
  (is "fst (cdn_fetch_priv ?E ?loc ?c) = Inr ?r \<and> _ \<and> _ \<and> _")
proof -
  have a: "fst (cdn_fetch_priv ?E ?loc ?c) = Inr ?r"
    by (simp add: cdn_defs env_defs isExactVersion_examples)
  have b: "isExactVersion (version ?loc)"
    by (simp add: isExactVersion_examples)
  have q: "requested (snd (cdn_fetch_priv ?E ?loc ?c)) = [''cdn/foo@1.0.0/index.js'']"
    by (simp add: cdn_defs env_defs isExactVersion_examples)
  from a have c: "cdn_fetch_priv ?E ?loc ?c = (Inr ?r, snd (cdn_fetch_priv ?E ?loc ?c))"
    by (simp add: prod_eq_iff)
  have "cdn_fetch_priv ?E ?loc (snd (cdn_fetch_priv ?E ?loc ?c))
          = (Inr ?r, snd (cdn_fetch_priv ?E ?loc ?c))"
    using b by (intro fetch_after_completed_fetch_is_cached [OF c]) simp
  with a b q show ?thesis by simp
qed

section \<open>Properties of BareModuleTransformer\<close>

subsection \<open>At-most-once handling of dependencies\<close>

lemma fileNames_append [simp]: "fileNames (xs @ ys) = fileNames xs @ fileNames ys"
  by (induction xs rule: fileNames.induct) simp_all



lemma taskFileNames_dependencies [simp]: "taskFileNames (map DependencyTask locs) = []"
  by (induction locs) simp_all

lemma depKeys_dependencies [simp]: "depKeys (map DependencyTask locs) = map locationKey locs"
  by (induction locs) simp_all

lemma sameHandling_refl [simp]: "sameHandling T T"
  unfolding sameHandling_def by (auto intro: exI [of _ "[]"])


lemma schedules_refl [simp]: "schedules T T"
  by (simp add: schedules_def)




























subsection \<open>Rewriting a file with more than one specifier\<close>

text \<open>
  Claim C3 fails on the code. The first loop of \<^verbatim>\<open>_transformBareModuleSpecifiers\<close>
  walks the specifiers from the last to the first and pushes them on \<^verbatim>\<open>transforms\<close>;
  the second loop walks \<^verbatim>\<open>transforms\<close> from its last entry to its first, so the splices
  are made from the first specifier of the file to the last, and after the first splice the
  recorded offsets of the later ones point into shifted text. A file with the two imports
  \<^verbatim>\<open>foo/a.js\<close> and \<^verbatim>\<open>foo/b.js\<close>: the second replacement is spliced into the middle of
  the first, and the second import stays as it was.
\<close>

theorem two_imports_rewritten_front_to_back:
  "emitted (bmt_process (tableEnv webAB [] []) [0, 0, 0]
      [FileOutput ''index.js'' ''import \"foo/a.js\";import \"foo/b.js\";'' None]
      (newBareModuleTransformer (newCachingCdn ''cdn/'')))
   = [FileOutput ''index.js''
        ''import \"./node_modules/foo./node_modules/foo@1.0.0/b.js.js\";import \"foo/b.js\";'' None,
      FileOutput ''node_modules/foo@1.0.0/b.js'' ''b1'' (Some ''text/javascript; charset=utf-8''),
      FileOutput ''node_modules/foo@1.0.0/a.js'' ''a1'' (Some ''text/javascript; charset=utf-8'')]"
  by (simp add: webAB_def bmt_defs cdn_defs env_defs util_defs isExactVersion_examples)

text \<open>
  Claim C4 fails on the code, by the same front-to-back order. The diagnostic of a failed
  specifier is positioned with \<^verbatim>\<open>charToLineAndChar(js, start)\<close> on the text \<^verbatim>\<open>js\<close> as
  the earlier splices have left it, with the offsets of the original text. A file whose
  first line imports \<^verbatim>\<open>foo/a.js\<close> and whose second line imports a package that does not
  exist: the specifier is at line 1, columns 8 to 29, and the diagnostic says line 0 column
  27 to line 1 column 8. With that import alone in the file the range is line 0, columns 8
  to 29.
\<close>

theorem failed_specifier_diagnostic_after_rewrite:
  "emitted (bmt_process (tableEnv webAB [] []) [0, 0]
      [FileOutput ''index.js''
         (''import \"foo/a.js\";'' @ [CHR 0x0A] @ ''import \"non-existent/index.js\";'') None]
      (newBareModuleTransformer (newCachingCdn ''cdn/'')))
   = [DiagnosticOutput ''index.js''
        ''Could not resolve module \"non-existent/index.js\": Unpkg 404 error: Not Found''
        \<lparr>line = 0, character = 27\<rparr> \<lparr>line = 1, character = 8\<rparr>,
      FileOutput ''index.js''
        (''import \"./node_modules/foo@1.0.0/a.js\";'' @ [CHR 0x0A]
           @ ''import \"non-existent/index.js\";'') None,
      FileOutput ''node_modules/foo@1.0.0/a.js'' ''a1'' (Some ''text/javascript; charset=utf-8'')]
   \<and> emitted (bmt_process (tableEnv webAB [] []) [0, 0]
      [FileOutput ''index.js'' ''import \"non-existent/index.js\";'' None]
      (newBareModuleTransformer (newCachingCdn ''cdn/'')))
   = [DiagnosticOutput ''index.js''
        ''Could not resolve module \"non-existent/index.js\": Unpkg 404 error: Not Found''
        \<lparr>line = 0, character = 8\<rparr> \<lparr>line = 0, character = 29\<rparr>,
      FileOutput ''index.js'' ''import \"non-existent/index.js\";'' None]"
  by (simp add: webAB_def bmt_defs cdn_defs env_defs util_defs isExactVersion_examples
      showNat_404)

subsection \<open>Version and main entry of a bare specifier\<close>

lemmas foo_defs = fooProject_def webFoo_def manifestsFoo_def fooManifest_def emptyPackageJson_def

text \<open>
  Claim C2 holds on its example and fails on the code for a package named like a member
  of \<^verbatim>\<open>Object.prototype\<close>. With the project manifest declaring \<^verbatim>\<open>foo: "^1.0.0"\<close> and
  the CDN holding 1.0.0 and 2.0.0, \<^verbatim>\<open>import "foo"\<close> resolves to 1.0.0, the main entry
  defaulting to \<^verbatim>\<open>index.js\<close>. A project without manifest that imports \<^verbatim>\<open>constructor\<close>
  gets the latest version, 1.0.0. The same import under the manifest above, which has a
  \<^verbatim>\<open>dependencies\<close> object without an entry for \<^verbatim>\<open>constructor\<close>, does not default to
  \<^verbatim>\<open>latest\<close>: \<^verbatim>\<open>dependencies?.[location.pkg]\<close> finds the inherited
  \<^verbatim>\<open>Object.prototype.constructor\<close>, which is not nullish, the version is a function, and
  \<^verbatim>\<open>isExactVersion\<close> throws on it at the start of \<^verbatim>\<open>_fetch\<close>: no request is made, the
  import stays as it was and a diagnostic is emitted.
\<close>

theorem inherited_member_taken_as_declared_version:
  "emitted (fooProject [FileOutput ''package.json'' ''{\"dependencies\":{\"foo\":\"^1.0.0\"}}'' None,
                        FileOutput ''index.js'' ''import \"foo\";'' None])
     = [FileOutput ''package.json'' ''{\"dependencies\":{\"foo\":\"^1.0.0\"}}'' None,
        FileOutput ''index.js'' ''import \"./node_modules/foo@1.0.0/index.js\";'' None,
        FileOutput ''node_modules/foo@1.0.0/index.js'' ''foo1''
          (Some ''text/javascript; charset=utf-8'')]
   \<and> emitted (fooProject [FileOutput ''index.js'' ''import \"constructor\";'' None])
     = [FileOutput ''index.js'' ''import \"./node_modules/constructor@1.0.0/index.js\";'' None,
        FileOutput ''node_modules/constructor@1.0.0/index.js'' ''ctor''
          (Some ''text/javascript; charset=utf-8'')]
   \<and> emitted (fooProject [FileOutput ''package.json'' ''{\"dependencies\":{\"foo\":\"^1.0.0\"}}'' None,
                          FileOutput ''index.js'' ''import \"constructor\";'' None])
     = [FileOutput ''package.json'' ''{\"dependencies\":{\"foo\":\"^1.0.0\"}}'' None,
        DiagnosticOutput ''index.js''
          ''Could not resolve module \"constructor\": s.match is not a function''
          \<lparr>line = 0, character = 8\<rparr> \<lparr>line = 0, character = 19\<rparr>,
        FileOutput ''index.js'' ''import \"constructor\";'' None]
   \<and> requested (cdn (fooProject
         [FileOutput ''package.json'' ''{\"dependencies\":{\"foo\":\"^1.0.0\"}}'' None,
          FileOutput ''index.js'' ''import \"constructor\";'' None])) = []"
  by (simp add: foo_defs bmt_defs cdn_defs env_defs util_defs isExactVersion_examples)


subsection \<open>A project manifest that is not JSON\<close>

lemma processResults_unparsable:
  assumes "\<forall>js ctype. FileOutput ''package.json'' js ctype \<in> set results \<longrightarrow> JSON_parse E js = None"
  shows "processResults E results None = (filter (\<lambda>r. \<not> isJsFile r) results, jsFiles results, None)"
  using assms
proof (induction results)
  case Nil
  show ?case by simp
next
  case (Cons r rest)
  have "\<forall>js ctype. FileOutput ''package.json'' js ctype \<in> set rest \<longrightarrow> JSON_parse E js = None"
    using Cons.prems by auto
  then have ih: "processResults E rest None = (filter (\<lambda>r. \<not> isJsFile r) rest, jsFiles rest, None)"
    by (rule Cons.IH)
  show ?case
  proof (cases r)
    case (FileOutput fname js ctype)
    show ?thesis
    proof (cases "endsWith fname ''.js''")
      case True
      with FileOutput ih show ?thesis by (simp add: isJsFile_def)
    next
      case False
      have "fname = ''package.json'' \<Longrightarrow> JSON_parse E js = None"
        using Cons.prems FileOutput by auto
      with False FileOutput ih show ?thesis by (auto simp: isJsFile_def Let_def)
    qed
  next
    case (DiagnosticOutput fname msg st en)
    with ih show ?thesis by (simp add: isJsFile_def)
  qed
qed

text \<open>
  Claim C8. When every \<^verbatim>\<open>package.json\<close> among the build results is rejected by
  \<^verbatim>\<open>JSON.parse\<close>, \<^verbatim>\<open>_process\<close> (a total function of the model: the \<^verbatim>\<open>catch\<close> of the
  source leaves no error to raise) yields exactly the results that are not \<^verbatim>\<open>.js\<close> files,
  unchanged and in order, every such \<^verbatim>\<open>package.json\<close> among them; it registers one
  producer for each \<^verbatim>\<open>.js\<close> file, whose \<^verbatim>\<open>getPackageJson\<close> settles to \<^verbatim>\<open>undefined\<close> as
  it does without any manifest; and with that \<^verbatim>\<open>getPackageJson\<close> every specifier without a
  version gets the version \<^verbatim>\<open>latest\<close>.
\<close>

theorem unparsable_package_json_treated_as_absent:
  assumes "\<forall>js ctype. FileOutput ''package.json'' js ctype \<in> set results \<longrightarrow> JSON_parse E js = None"
  shows "emitted (bmt_process_priv E results T) = emitted T @ filter (\<lambda>r. \<not> isJsFile r) results
    \<and> merged (bmt_process_priv E results T)
        = merged T @ map (\<lambda>(fname, js, ctype). TransformTask fname js ctype (ProjectPackageJson None))
                       (jsFiles results)
    \<and> (\<forall>js ctype. FileOutput ''package.json'' js ctype \<in> set results
          \<longrightarrow> FileOutput ''package.json'' js ctype \<in> set (emitted (bmt_process_priv E results T)))
    \<and> (\<forall>loc c. version loc = [] \<longrightarrow>
          fillVersion E (ProjectPackageJson None) loc c
            = (Inr (loc\<lparr>version := ''latest''\<rparr>), ProjectPackageJson None, c))"
proof -
  note pr = processResults_unparsable [OF assms]
  have e: "emitted (bmt_process_priv E results T) = emitted T @ filter (\<lambda>r. \<not> isJsFile r) results"
    by (simp add: bmt_process_priv_def pr)
  have m: "merged (bmt_process_priv E results T)
        = merged T @ map (\<lambda>(fname, js, ctype). TransformTask fname js ctype (ProjectPackageJson None))
                       (jsFiles results)"
    by (simp add: bmt_process_priv_def pr settled_def)
  have p: "FileOutput ''package.json'' js ctype \<in> set results
          \<Longrightarrow> FileOutput ''package.json'' js ctype \<in> set (emitted (bmt_process_priv E results T))"
    for js ctype
    by (simp add: e isJsFile_def endsWith_def)
  have v: "version loc = [] \<Longrightarrow>
          fillVersion E (ProjectPackageJson None) loc c
            = (Inr (loc\<lparr>version := ''latest''\<rparr>), ProjectPackageJson None, c)" for loc c
    by (simp add: fillVersion_def callGetPackageJson_def declaredVersion_def)
  from e m p v show ?thesis by blast
qed

theorem unparsable_package_json_treated_as_absent_witness:
  "emitted (bmt_process_priv (tableEnv webFoo manifestsFoo []) invalidManifestProject
              (newBareModuleTransformer (newCachingCdn ''cdn/'')))
     = [FileOutput ''package.json'' ''not json'' None]
   \<and> merged (bmt_process_priv (tableEnv webFoo manifestsFoo []) invalidManifestProject
              (newBareModuleTransformer (newCachingCdn ''cdn/'')))
     = [TransformTask ''index.js'' ''import \"foo\";'' None (ProjectPackageJson None)]
   \<and> fillVersion (tableEnv webFoo manifestsFoo []) (ProjectPackageJson None)
         \<lparr>pkg = ''foo'', version = [], path = []\<rparr> (newCachingCdn ''cdn/'')
     = (Inr \<lparr>pkg = ''foo'', version = ''latest'', path = []\<rparr>, ProjectPackageJson None,
        newCachingCdn ''cdn/'')
   \<and> emitted (fooProject invalidManifestProject)
     = [FileOutput ''package.json'' ''not json'' None,
        FileOutput ''index.js'' ''import \"./node_modules/foo@2.0.0/index.js\";'' None,
        FileOutput ''node_modules/foo@2.0.0/index.js'' ''foo2''
          (Some ''text/javascript; charset=utf-8'')]"
proof -
  have h: "\<forall>js ctype. FileOutput ''package.json'' js ctype \<in> set invalidManifestProject
             \<longrightarrow> JSON_parse (tableEnv webFoo manifestsFoo []) js = None"
    by (simp add: invalidManifestProject_def tableEnv_def manifestsFoo_def)
  note t = unparsable_package_json_treated_as_absent
             [OF h, of "newBareModuleTransformer (newCachingCdn ''cdn/'')"]
  have e: "emitted (fooProject invalidManifestProject)
     = [FileOutput ''package.json'' ''not json'' None,
        FileOutput ''index.js'' ''import \"./node_modules/foo@2.0.0/index.js\";'' None,
        FileOutput ''node_modules/foo@2.0.0/index.js'' ''foo2''
          (Some ''text/javascript; charset=utf-8'')]"
    by (simp add: invalidManifestProject_def foo_defs bmt_defs cdn_defs env_defs util_defs
        isExactVersion_examples)
  from t e show ?thesis
    by (simp add: invalidManifestProject_def isJsFile_def endsWith_def
        newBareModuleTransformer_def)
qed

end
